theory Spec2Isabelle
  imports Main
begin

section \<open>The type-size diagnostic \<^verbatim>\<open>src/db.c\<close>\<close>

text \<open>
  The whole program is one function:
  \<^verbatim>\<open>
  int main(int argc, char const *argv[])
  {
    printf("sizeof(int) = %zu\n", sizeof(int)); // 4
    printf("sizeof(int*) = %zu\n", sizeof(int*)); // 8
    printf("sizeof(uint8_t) = %zu\n", sizeof(uint8_t)); // 1
    printf("sizeof(uint32_t) = %zu\n", sizeof(uint32_t)); // 4
    return 0;
  }
  \<close>
  Two things it uses are not part of the repository: the sizes of the four types, which
  the compiler of the target platform fixes, and \<^verbatim>\<open>printf\<close>, which the C library
  provides. The sizes are a parameter of the model (a \<open>platform\<close>); \<^verbatim>\<open>printf\<close> is
  modelled on an explicit \<open>world\<close>, with the return value the program could test, and
  the text of the program is first written over any such function (\<open>main_with\<close>).
\<close>

subsection \<open>The target platform\<close>

text \<open>
  What \<^verbatim>\<open>sizeof\<close> yields for the four types of the source, in bytes, and the number
  of bits of a byte (\<^verbatim>\<open>CHAR_BIT\<close>). The record describes a platform that provides
  \<^verbatim>\<open>uint8_t\<close> and \<^verbatim>\<open>uint32_t\<close>: on any other one the source does not compile.
\<close>

record platform =
  char_bit :: nat
  sizeof_int :: nat
  sizeof_int_ptr :: nat
  sizeof_uint8_t :: nat
  sizeof_uint32_t :: nat

text \<open>The LP64 data model of the common 64-bit platforms.\<close>

definition lp64 :: platform where
  "lp64 = \<lparr>char_bit = 8, sizeof_int = 4, sizeof_int_ptr = 8,
           sizeof_uint8_t = 1, sizeof_uint32_t = 4\<rparr>"

subsection \<open>The world of a process\<close>

text \<open>
  \<open>stdout_calls\<close> is the history of the texts handed to standard output, one entry for
  each output call, whether or not the stream took it; \<open>stdout_bytes\<close> is what the stream
  has taken. The other fields are the parts of the world that a C program could read or
  change and that this one never names.
\<close>

record world =
  stdout_open :: bool
  stdout_calls :: "string list"
  stdout_bytes :: string
  stdin_bytes :: string
  environ :: "(string \<times> string) list"
  files :: "(string \<times> string) list"
  clock :: nat

subsection \<open>Formatted output\<close>

definition digit_char :: "nat \<Rightarrow> char" where
  "digit_char d = char_of (48 + d)"

text \<open>The conversion \<^verbatim>\<open>%zu\<close>: unsigned decimal, no padding, \<^verbatim>\<open>0\<close> for zero.\<close>

fun show_dec :: "nat \<Rightarrow> string" where
  "show_dec n =
     (if n < 10 then [digit_char n] else show_dec (n div 10) @ [digit_char (n mod 10)])"

declare show_dec.simps [simp del]

text \<open>
  The format strings of the source hold ordinary characters and the directive
  \<^verbatim>\<open>%zu\<close> only. An ordinary character is copied; \<^verbatim>\<open>%zu\<close> takes the next
  argument. A directive without an argument is undefined behaviour in C and does not
  occur in the source; the model copies it.
\<close>

fun vformat :: "string \<Rightarrow> nat list \<Rightarrow> string" where
  "vformat [] args = []"
| "vformat (c # cs) args =
     (if c = CHR ''%'' \<and> take 2 cs = ''zu'' \<and> args \<noteq> []
      then show_dec (hd args) @ vformat (drop 2 cs) (tl args)
      else c # vformat cs args)"

text \<open>
  \<^verbatim>\<open>printf\<close> returns the number of characters transmitted, or a negative value
  when the output fails; a stream that is closed takes nothing.
\<close>

definition printf :: "string \<Rightarrow> nat list \<Rightarrow> world \<Rightarrow> int \<times> world" where
  "printf fmt args w =
     (let text = vformat fmt args;
          w' = w\<lparr>stdout_calls := stdout_calls w @ [text]\<rparr>
      in if stdout_open w
         then (int (length text), w'\<lparr>stdout_bytes := stdout_bytes w @ text\<rparr>)
         else (- 1, w'))"

text \<open>
  In \<open>printf\<close> the stream works or fails as a whole, and a failure is reported at once.
  A real library has more ways to fail: a call can fail after another one succeeded, and
  a buffered stream reports success for a text that never arrives. \<open>printf_with\<close> gives
  each call its own outcome, taken from a list (one entry for each call to come): the
  stream takes the text (\<open>Taken\<close>); the call returns the count and the text is lost
  (\<open>Lost\<close>); the call returns a negative value and the stream takes nothing
  (\<open>Failed\<close>). When the list is used up, the call does what \<open>printf\<close> does.
\<close>

datatype outcome = Taken | Lost | Failed

definition printf_with ::
  "string \<Rightarrow> nat list \<Rightarrow> outcome list \<times> world \<Rightarrow> int \<times> (outcome list \<times> world)"
where
  "printf_with fmt args s =
     (let text = vformat fmt args;
          w = snd s;
          w' = w\<lparr>stdout_calls := stdout_calls w @ [text]\<rparr>;
          rest = tl (fst s)
      in case (case fst s of [] \<Rightarrow> (if stdout_open w then Taken else Failed) | x # _ \<Rightarrow> x) of
           Taken \<Rightarrow> (int (length text), (rest, w'\<lparr>stdout_bytes := stdout_bytes w @ text\<rparr>))
         | Lost \<Rightarrow> (int (length text), (rest, w'))
         | Failed \<Rightarrow> (- 1, (rest, w')))"

subsection \<open>The entry point\<close>

text \<open>
  The four calls in the order of the source, each result bound and never used, then
  \<^verbatim>\<open>return 0\<close>. The parameters \<open>argc\<close> and \<open>argv\<close> are those of the source.
  The library function is the parameter \<open>pf\<close>: any function from the format, the
  arguments and a state to a returned value and a new state.
\<close>

definition main_with ::
  "(string \<Rightarrow> nat list \<Rightarrow> 's \<Rightarrow> int \<times> 's) \<Rightarrow> platform \<Rightarrow> int \<Rightarrow> string list \<Rightarrow> 's \<Rightarrow> int \<times> 's"
where
  "main_with pf P argc argv s0 =
     (let (r1, s1) = pf ''sizeof(int) = %zu\<newline>'' [sizeof_int P] s0;
          (r2, s2) = pf ''sizeof(int*) = %zu\<newline>'' [sizeof_int_ptr P] s1;
          (r3, s3) = pf ''sizeof(uint8_t) = %zu\<newline>'' [sizeof_uint8_t P] s2;
          (r4, s4) = pf ''sizeof(uint32_t) = %zu\<newline>'' [sizeof_uint32_t P] s3
      in (0, s4))"

text \<open>The program on the library \<open>printf\<close> of the model.\<close>

definition main :: "platform \<Rightarrow> int \<Rightarrow> string list \<Rightarrow> world \<Rightarrow> int \<times> world" where
  "main P argc argv w0 = main_with printf P argc argv w0"

subsection \<open>Reading the output back\<close>

text \<open>
  What an observer of standard output does with the text: cut it into lines at the
  newline characters, and read the decimal number that follows \<^verbatim>\<open>= \<close> on a line.
  These functions are not part of the program; the properties below use them to say
  what was printed.
\<close>

definition is_digit :: "char \<Rightarrow> bool" where
  "is_digit c \<longleftrightarrow> 48 \<le> (of_char c :: nat) \<and> (of_char c :: nat) \<le> 57"

definition digit_val :: "char \<Rightarrow> nat" where
  "digit_val c = of_char c - 48"

definition read_dec :: "string \<Rightarrow> nat" where
  "read_dec ds = foldl (\<lambda>acc c. 10 * acc + digit_val c) 0 ds"

definition printed_size :: "string \<Rightarrow> nat option" where
  "printed_size line =
     (let ds = takeWhile is_digit (drop 2 (dropWhile (\<lambda>c. c \<noteq> CHR ''='') line))
      in if ds = [] then None else Some (read_dec ds))"

primrec lines_from :: "string \<Rightarrow> string \<Rightarrow> string list" where
  "lines_from cur [] = (if cur = [] then [] else [cur])"
| "lines_from cur (c # cs) =
     (if c = CHR ''\<newline>'' then cur # lines_from [] cs else lines_from (cur @ [c]) cs)"

definition split_lines :: "string \<Rightarrow> string list" where
  "split_lines s = lines_from [] s"

subsection \<open>Conforming platforms and a first world\<close>

text \<open>
  The constraints of ISO C on the sizes the program prints; they are not in the
  repository, which takes the types from \<^verbatim>\<open>stdint.h\<close>. A byte has at least 8 bits
  (\<^verbatim>\<open>CHAR_BIT\<close>, 5.2.4.2.1). An exact-width type \<^verbatim>\<open>uintN_t\<close> has N bits and no
  padding bits (7.20.1.1), so its bytes hold N bits together. An \<^verbatim>\<open>int\<close> has at
  least 16 bits, and no object has size 0.
\<close>

definition conforming :: "platform \<Rightarrow> bool" where
  "conforming P \<longleftrightarrow>
     8 \<le> char_bit P \<and>
     sizeof_uint8_t P * char_bit P = 8 \<and>
     sizeof_uint32_t P * char_bit P = 32 \<and>
     16 \<le> sizeof_int P * char_bit P \<and>
     0 < sizeof_int_ptr P"

text \<open>A process just started, with standard output open and nothing written yet.\<close>

definition fresh_world :: world where
  "fresh_world = \<lparr>stdout_open = True, stdout_calls = [], stdout_bytes = [],
     stdin_bytes = [], environ = [], files = [], clock = 0\<rparr>"

section \<open>Formatting and reading back\<close>

lemma vformat_int:
  "vformat ''sizeof(int) = %zu\<newline>'' [n] = ''sizeof(int) = '' @ show_dec n @ ''\<newline>''"
  by simp

lemma vformat_int_ptr:
  "vformat ''sizeof(int*) = %zu\<newline>'' [n] = ''sizeof(int*) = '' @ show_dec n @ ''\<newline>''"
  by simp

lemma vformat_uint8_t:
  "vformat ''sizeof(uint8_t) = %zu\<newline>'' [n] =
     ''sizeof(uint8_t) = '' @ show_dec n @ ''\<newline>''"
  by simp

lemma vformat_uint32_t:
  "vformat ''sizeof(uint32_t) = %zu\<newline>'' [n] =
     ''sizeof(uint32_t) = '' @ show_dec n @ ''\<newline>''"
  by simp

lemmas vformat_source = vformat_int vformat_int_ptr vformat_uint8_t vformat_uint32_t

lemma show_dec_small:
  "show_dec 4 = ''4''" "show_dec 8 = ''8''" "show_dec 1 = ''1''" "show_dec (Suc 0) = ''1''"
  "show_dec 2 = ''2''"
  by code_simp+

lemma digit_val_digit_char: "d < 10 \<Longrightarrow> digit_val (digit_char d) = d"
  by (simp add: digit_val_def digit_char_def)

lemma is_digit_digit_char: "d < 10 \<Longrightarrow> is_digit (digit_char d)"
  by (simp add: is_digit_def digit_char_def)

lemma not_is_digit_newline: "\<not> is_digit CHR ''\<newline>''"
  by (simp add: is_digit_def)

lemma show_dec_digits: "list_all is_digit (show_dec n)"
proof (induction n rule: show_dec.induct)
  case (1 n)
  show ?case
  proof (cases "n < 10")
    case True
    then show ?thesis by (simp add: show_dec.simps [of n] is_digit_digit_char)
  next
    case False
    with 1 show ?thesis by (simp add: show_dec.simps [of n] is_digit_digit_char)
  qed
qed

lemma show_dec_not_Nil: "show_dec n \<noteq> []"
  by (simp add: show_dec.simps [of n])

lemma newline_notin_show_dec: "CHR ''\<newline>'' \<notin> set (show_dec n)"
  using show_dec_digits [of n] not_is_digit_newline by (auto simp: list_all_iff)

lemma read_dec_snoc: "read_dec (ds @ [c]) = 10 * read_dec ds + digit_val c"
  by (simp add: read_dec_def)

text \<open>Reading a printed number back gives the number: \<^verbatim>\<open>%zu\<close> loses nothing.\<close>

lemma read_dec_show_dec: "read_dec (show_dec n) = n"
proof (induction n rule: show_dec.induct)
  case (1 n)
  show ?case
  proof (cases "n < 10")
    case True
    then show ?thesis
      by (simp add: show_dec.simps [of n] read_dec_def digit_val_digit_char)
  next
    case False
    with 1 have "read_dec (show_dec (n div 10)) = n div 10" by simp
    with False show ?thesis
      by (simp add: show_dec.simps [of n] read_dec_snoc digit_val_digit_char)
  qed
qed

lemma takeWhile_show_dec: "takeWhile is_digit (show_dec n @ ''\<newline>'') = show_dec n"
proof -
  have "\<forall>c \<in> set (show_dec n). is_digit c"
    using show_dec_digits [of n] by (simp add: list_all_iff)
  then show ?thesis by (simp add: not_is_digit_newline)
qed

lemma takeWhile_show_dec_all: "takeWhile is_digit (show_dec n) = show_dec n"
  using show_dec_digits [of n] by (simp add: list_all_iff)

lemma printed_size_lines:
  "printed_size (''sizeof(int) = '' @ show_dec n) = Some n"
  "printed_size (''sizeof(int*) = '' @ show_dec n) = Some n"
  "printed_size (''sizeof(uint8_t) = '' @ show_dec n) = Some n"
  "printed_size (''sizeof(uint32_t) = '' @ show_dec n) = Some n"
  by (simp_all add: printed_size_def takeWhile_show_dec_all show_dec_not_Nil read_dec_show_dec)

lemma lines_from_append:
  "CHR ''\<newline>'' \<notin> set xs \<Longrightarrow> lines_from cur (xs @ ys) = lines_from (cur @ xs) ys"
  by (induction xs arbitrary: cur) auto

lemma split_lines_four:
  assumes "CHR ''\<newline>'' \<notin> set a" "CHR ''\<newline>'' \<notin> set b"
    "CHR ''\<newline>'' \<notin> set c" "CHR ''\<newline>'' \<notin> set d"
  shows "split_lines (a @ ''\<newline>'' @ b @ ''\<newline>'' @ c @ ''\<newline>'' @ d @ ''\<newline>'')
    = [a, b, c, d]"
  using assms by (simp add: split_lines_def lines_from_append)

section \<open>What one run does to the world\<close>

lemma snd_printf:
  "snd (printf fmt args w) =
     w\<lparr>stdout_calls := stdout_calls w @ [vformat fmt args],
       stdout_bytes := stdout_bytes w @ (if stdout_open w then vformat fmt args else [])\<rparr>"
  by (simp add: printf_def Let_def)

lemma printf_with_calls:
  "stdout_calls (snd (snd (printf_with fmt args s))) = stdout_calls (snd s) @ [vformat fmt args]"
  by (simp add: printf_with_def Let_def split: outcome.split list.split)

lemma main_with_eq:
  "main_with pf P argc argv s =
     (0, snd (pf ''sizeof(uint32_t) = %zu\<newline>'' [sizeof_uint32_t P]
         (snd (pf ''sizeof(uint8_t) = %zu\<newline>'' [sizeof_uint8_t P]
         (snd (pf ''sizeof(int*) = %zu\<newline>'' [sizeof_int_ptr P]
         (snd (pf ''sizeof(int) = %zu\<newline>'' [sizeof_int P] s))))))))"
  by (simp add: main_with_def split_beta Let_def)

lemma main_eq:
  "main P argc argv w =
     (0, snd (printf ''sizeof(uint32_t) = %zu\<newline>'' [sizeof_uint32_t P]
         (snd (printf ''sizeof(uint8_t) = %zu\<newline>'' [sizeof_uint8_t P]
         (snd (printf ''sizeof(int*) = %zu\<newline>'' [sizeof_int_ptr P]
         (snd (printf ''sizeof(int) = %zu\<newline>'' [sizeof_int P] w))))))))"
  by (simp add: main_def main_with_eq)

lemma main_calls:
  "stdout_calls (snd (main P argc argv w)) = stdout_calls w @
     [''sizeof(int) = '' @ show_dec (sizeof_int P) @ ''\<newline>'',
      ''sizeof(int*) = '' @ show_dec (sizeof_int_ptr P) @ ''\<newline>'',
      ''sizeof(uint8_t) = '' @ show_dec (sizeof_uint8_t P) @ ''\<newline>'',
      ''sizeof(uint32_t) = '' @ show_dec (sizeof_uint32_t P) @ ''\<newline>'']"
  unfolding main_eq snd_printf vformat_source by simp

lemma main_bytes:
  "stdout_bytes (snd (main P argc argv w)) = stdout_bytes w @
     (if stdout_open w
      then ''sizeof(int) = '' @ show_dec (sizeof_int P) @ ''\<newline>'' @
           ''sizeof(int*) = '' @ show_dec (sizeof_int_ptr P) @ ''\<newline>'' @
           ''sizeof(uint8_t) = '' @ show_dec (sizeof_uint8_t P) @ ''\<newline>'' @
           ''sizeof(uint32_t) = '' @ show_dec (sizeof_uint32_t P) @ ''\<newline>''
      else [])"
  unfolding main_eq snd_printf vformat_source by simp

lemma main_frame:
  "stdout_open (snd (main P argc argv w)) = stdout_open w"
  "stdin_bytes (snd (main P argc argv w)) = stdin_bytes w"
  "environ (snd (main P argc argv w)) = environ w"
  "files (snd (main P argc argv w)) = files w"
  "clock (snd (main P argc argv w)) = clock w"
  unfolding main_eq snd_printf by simp_all

text \<open>The bytes an open stream receives during a run, cut into lines.\<close>

lemma main_lines:
  assumes "stdout_open w"
  shows "split_lines (drop (length (stdout_bytes w)) (stdout_bytes (snd (main P argc argv w))))
    = [''sizeof(int) = '' @ show_dec (sizeof_int P),
       ''sizeof(int*) = '' @ show_dec (sizeof_int_ptr P),
       ''sizeof(uint8_t) = '' @ show_dec (sizeof_uint8_t P),
       ''sizeof(uint32_t) = '' @ show_dec (sizeof_uint32_t P)]"
proof -
  have "drop (length (stdout_bytes w)) (stdout_bytes (snd (main P argc argv w))) =
     (''sizeof(int) = '' @ show_dec (sizeof_int P)) @ ''\<newline>'' @
     (''sizeof(int*) = '' @ show_dec (sizeof_int_ptr P)) @ ''\<newline>'' @
     (''sizeof(uint8_t) = '' @ show_dec (sizeof_uint8_t P)) @ ''\<newline>'' @
     (''sizeof(uint32_t) = '' @ show_dec (sizeof_uint32_t P)) @ ''\<newline>''"
    using assms by (simp add: main_bytes)
  moreover have "split_lines
     ((''sizeof(int) = '' @ show_dec (sizeof_int P)) @ ''\<newline>'' @
      (''sizeof(int*) = '' @ show_dec (sizeof_int_ptr P)) @ ''\<newline>'' @
      (''sizeof(uint8_t) = '' @ show_dec (sizeof_uint8_t P)) @ ''\<newline>'' @
      (''sizeof(uint32_t) = '' @ show_dec (sizeof_uint32_t P)) @ ''\<newline>'')
    = [''sizeof(int) = '' @ show_dec (sizeof_int P),
       ''sizeof(int*) = '' @ show_dec (sizeof_int_ptr P),
       ''sizeof(uint8_t) = '' @ show_dec (sizeof_uint8_t P),
       ''sizeof(uint32_t) = '' @ show_dec (sizeof_uint32_t P)]"
    by (rule split_lines_four) (simp_all add: newline_notin_show_dec)
  ultimately show ?thesis by (simp only:)
qed

section \<open>Properties\<close>

text \<open>
  C1. In every execution, whatever \<open>argc\<close> and \<open>argv\<close> are, the program hands to
  standard output four texts and no more, in the order of the source:
  \<^verbatim>\<open>sizeof(int) = N\<close>, \<^verbatim>\<open>sizeof(int*) = N\<close>, \<^verbatim>\<open>sizeof(uint8_t) = N\<close> and
  \<^verbatim>\<open>sizeof(uint32_t) = N\<close>, each ended by a newline, with N the decimal numeral of
  the size. Cut at the newlines, this text is exactly those four lines. On a standard
  output that is open, the four lines are what the run appends to the stream. (What
  happens to the text on a stream that has failed is the matter of C7.)
\<close>

theorem main_writes_four_lines:
  "let w' = snd (main P argc argv w);
       l1 = ''sizeof(int) = '' @ show_dec (sizeof_int P);
       l2 = ''sizeof(int*) = '' @ show_dec (sizeof_int_ptr P);
       l3 = ''sizeof(uint8_t) = '' @ show_dec (sizeof_uint8_t P);
       l4 = ''sizeof(uint32_t) = '' @ show_dec (sizeof_uint32_t P);
       text = l1 @ ''\<newline>'' @ l2 @ ''\<newline>'' @ l3 @ ''\<newline>'' @ l4 @ ''\<newline>''
   in stdout_calls w' =
        stdout_calls w @ [l1 @ ''\<newline>'', l2 @ ''\<newline>'', l3 @ ''\<newline>'', l4 @ ''\<newline>'']
      \<and> split_lines text = [l1, l2, l3, l4]
      \<and> (stdout_open w \<longrightarrow> stdout_bytes w' = stdout_bytes w @ text)"
  unfolding Let_def
proof (intro conjI)
  show "stdout_calls (snd (main P argc argv w)) = stdout_calls w @
     [(''sizeof(int) = '' @ show_dec (sizeof_int P)) @ ''\<newline>'',
      (''sizeof(int*) = '' @ show_dec (sizeof_int_ptr P)) @ ''\<newline>'',
      (''sizeof(uint8_t) = '' @ show_dec (sizeof_uint8_t P)) @ ''\<newline>'',
      (''sizeof(uint32_t) = '' @ show_dec (sizeof_uint32_t P)) @ ''\<newline>'']"
    by (simp add: main_calls)
  show "split_lines
     ((''sizeof(int) = '' @ show_dec (sizeof_int P)) @ ''\<newline>'' @
      (''sizeof(int*) = '' @ show_dec (sizeof_int_ptr P)) @ ''\<newline>'' @
      (''sizeof(uint8_t) = '' @ show_dec (sizeof_uint8_t P)) @ ''\<newline>'' @
      (''sizeof(uint32_t) = '' @ show_dec (sizeof_uint32_t P)) @ ''\<newline>'')
    = [''sizeof(int) = '' @ show_dec (sizeof_int P),
       ''sizeof(int*) = '' @ show_dec (sizeof_int_ptr P),
       ''sizeof(uint8_t) = '' @ show_dec (sizeof_uint8_t P),
       ''sizeof(uint32_t) = '' @ show_dec (sizeof_uint32_t P)]"
    by (rule split_lines_four) (simp_all add: newline_notin_show_dec)
  show "stdout_open w \<longrightarrow> stdout_bytes (snd (main P argc argv w)) = stdout_bytes w @
     (''sizeof(int) = '' @ show_dec (sizeof_int P)) @ ''\<newline>'' @
     (''sizeof(int*) = '' @ show_dec (sizeof_int_ptr P)) @ ''\<newline>'' @
     (''sizeof(uint8_t) = '' @ show_dec (sizeof_uint8_t P)) @ ''\<newline>'' @
     (''sizeof(uint32_t) = '' @ show_dec (sizeof_uint32_t P)) @ ''\<newline>''"
    by (simp add: main_bytes)
qed

theorem main_writes_four_lines_witness:
  "stdout_open fresh_world
   \<and> stdout_calls (snd (main lp64 4 [''prog'', ''a'', ''b'', ''c''] fresh_world)) =
       [''sizeof(int) = 4\<newline>'', ''sizeof(int*) = 8\<newline>'',
        ''sizeof(uint8_t) = 1\<newline>'', ''sizeof(uint32_t) = 4\<newline>'']
   \<and> stdout_bytes (snd (main lp64 4 [''prog'', ''a'', ''b'', ''c''] fresh_world)) =
       ''sizeof(int) = 4\<newline>sizeof(int*) = 8\<newline>sizeof(uint8_t) = 1\<newline>sizeof(uint32_t) = 4\<newline>''"
  using main_writes_four_lines
    [where P = lp64 and argc = 4 and argv = "[''prog'', ''a'', ''b'', ''c'']" and w = fresh_world]
  by (simp add: Let_def fresh_world_def lp64_def show_dec_small)

text \<open>
  C2. On every platform, the number on each of the four lines, read back as a decimal
  numeral, is the size of the type the line names on that platform: of \<^verbatim>\<open>int\<close>, of
  \<^verbatim>\<open>int*\<close>, of \<^verbatim>\<open>uint8_t\<close> and of \<^verbatim>\<open>uint32_t\<close>, in this order. This holds of
  the four texts the program hands to standard output, and of the bytes an open standard
  output receives during the run, cut into lines.
\<close>

theorem main_prints_platform_sizes:
  "map printed_size (drop (length (stdout_calls w)) (stdout_calls (snd (main P argc argv w))))
     = [Some (sizeof_int P), Some (sizeof_int_ptr P),
        Some (sizeof_uint8_t P), Some (sizeof_uint32_t P)]
   \<and> (stdout_open w \<longrightarrow>
       map printed_size
         (split_lines (drop (length (stdout_bytes w)) (stdout_bytes (snd (main P argc argv w)))))
       = [Some (sizeof_int P), Some (sizeof_int_ptr P),
          Some (sizeof_uint8_t P), Some (sizeof_uint32_t P)])"
proof (intro conjI impI)
  show "map printed_size
      (drop (length (stdout_calls w)) (stdout_calls (snd (main P argc argv w))))
     = [Some (sizeof_int P), Some (sizeof_int_ptr P),
        Some (sizeof_uint8_t P), Some (sizeof_uint32_t P)]"
    by (simp add: main_calls printed_size_def takeWhile_show_dec show_dec_not_Nil
        read_dec_show_dec)
next
  assume "stdout_open w"
  then show "map printed_size
      (split_lines (drop (length (stdout_bytes w)) (stdout_bytes (snd (main P argc argv w)))))
     = [Some (sizeof_int P), Some (sizeof_int_ptr P),
        Some (sizeof_uint8_t P), Some (sizeof_uint32_t P)]"
    by (simp only: main_lines list.map printed_size_lines)
qed

theorem main_prints_platform_sizes_witness:
  "stdout_open fresh_world
   \<and> stdout_bytes (snd (main \<lparr>char_bit = 8, sizeof_int = 4, sizeof_int_ptr = 4,
        sizeof_uint8_t = 1, sizeof_uint32_t = 4\<rparr> 1 [''db''] fresh_world)) =
       ''sizeof(int) = 4\<newline>sizeof(int*) = 4\<newline>sizeof(uint8_t) = 1\<newline>sizeof(uint32_t) = 4\<newline>''
   \<and> map printed_size (split_lines (stdout_bytes (snd (main \<lparr>char_bit = 8, sizeof_int = 4,
        sizeof_int_ptr = 4, sizeof_uint8_t = 1, sizeof_uint32_t = 4\<rparr> 1 [''db''] fresh_world))))
       = [Some 4, Some 4, Some 1, Some 4]"
  using main_prints_platform_sizes [where P = "\<lparr>char_bit = 8, sizeof_int = 4,
        sizeof_int_ptr = 4, sizeof_uint8_t = 1, sizeof_uint32_t = 4\<rparr>"
      and argc = 1 and argv = "[''db'']" and w = fresh_world]
  by (simp add: fresh_world_def main_bytes show_dec_small)

text \<open>
  C3. Run with no arguments (\<open>argc = 1\<close>, \<open>argv\<close> the program name alone) on an LP64
  platform, the program prints the sizes 4, 8, 1 and 4: the four texts it hands to
  standard output are \<^verbatim>\<open>sizeof(int) = 4\<close>, \<^verbatim>\<open>sizeof(int*) = 8\<close>,
  \<^verbatim>\<open>sizeof(uint8_t) = 1\<close> and \<^verbatim>\<open>sizeof(uint32_t) = 4\<close>, and on an open standard output
  these lines are what the stream receives.
\<close>

theorem main_lp64_output:
  "stdout_calls (snd (main lp64 1 [prog] w)) = stdout_calls w @
     [''sizeof(int) = 4\<newline>'', ''sizeof(int*) = 8\<newline>'',
      ''sizeof(uint8_t) = 1\<newline>'', ''sizeof(uint32_t) = 4\<newline>'']
   \<and> (stdout_open w \<longrightarrow> stdout_bytes (snd (main lp64 1 [prog] w)) = stdout_bytes w @
     ''sizeof(int) = 4\<newline>sizeof(int*) = 8\<newline>sizeof(uint8_t) = 1\<newline>sizeof(uint32_t) = 4\<newline>'')"
  by (simp add: main_calls main_bytes lp64_def show_dec_small)

theorem main_lp64_output_witness:
  "stdout_open fresh_world
   \<and> stdout_bytes (snd (main lp64 1 [''./db''] fresh_world)) =
       ''sizeof(int) = 4\<newline>sizeof(int*) = 8\<newline>sizeof(uint8_t) = 1\<newline>sizeof(uint32_t) = 4\<newline>''"
  using main_lp64_output [where prog = "''./db''" and w = fresh_world]
  by (simp add: fresh_world_def)

text \<open>
  C4. Whatever the arguments, the platform and the state of the world, the entry point
  returns 0, the success status.
\<close>

theorem main_returns_zero: "fst (main P argc argv w) = 0"
  by (simp add: main_def main_with_def split_beta Let_def)

text \<open>
  C5. The entry point terminates on every input: for every \<open>argc\<close>, \<open>argv\<close>, platform
  and world it returns a status and a final world, after exactly four output calls.
  (It is a function without recursion; the formatting it calls is a total function.)
\<close>

theorem main_terminates:
  "\<exists>status w'. main P argc argv w = (status, w')
     \<and> length (stdout_calls w') = length (stdout_calls w) + 4"
proof (intro exI conjI)
  show "main P argc argv w = (fst (main P argc argv w), snd (main P argc argv w))"
    by simp
  show "length (stdout_calls (snd (main P argc argv w))) = length (stdout_calls w) + 4"
    by (simp add: main_calls)
qed

text \<open>
  C6. The arguments are not used: on the same platform and from the same world, a run
  with any \<open>argc\<close> and \<open>argv\<close> ends with the same exit status and the same world (so the
  same standard output) as a run with any other ones, the run without arguments among
  them.
\<close>

theorem main_ignores_arguments: "main P argc argv w = main P argc' argv' w"
  by (simp add: main_eq)

text \<open>
  C7. Output failures are neither detected nor handled: the values the output calls
  return are discarded. Whatever the library function does (\<open>pf\<close> is any function, so
  each of the four calls may succeed or fail on its own, in any pattern, and return any
  value) the entry point returns 0 and goes on to make all four calls, with the formats
  and arguments of the source, each on the state the call before left. The program of
  the model is this text on \<open>printf\<close>. In particular, with one outcome for each call
  (text taken, text lost, call failed), in every pattern, the status is 0 and the texts
  handed to standard output are those of a run where nothing fails.
\<close>

theorem main_ignores_output_failure:
  "main_with pf P argc argv s =
     (0, snd (pf ''sizeof(uint32_t) = %zu\<newline>'' [sizeof_uint32_t P]
         (snd (pf ''sizeof(uint8_t) = %zu\<newline>'' [sizeof_uint8_t P]
         (snd (pf ''sizeof(int*) = %zu\<newline>'' [sizeof_int_ptr P]
         (snd (pf ''sizeof(int) = %zu\<newline>'' [sizeof_int P] s))))))))
   \<and> main_with printf P argc argv w = main P argc argv w
   \<and> fst (main_with printf_with P argc argv (outcomes, w)) = 0
   \<and> stdout_calls (snd (snd (main_with printf_with P argc argv (outcomes, w))))
       = stdout_calls (snd (main P argc argv w))"
proof (intro conjI)
  show "stdout_calls (snd (snd (main_with printf_with P argc argv (outcomes, w))))
       = stdout_calls (snd (main P argc argv w))"
    unfolding main_with_eq snd_conv printf_with_calls main_calls vformat_source by simp
  show "main_with printf P argc argv w = main P argc argv w"
    by (simp add: main_def)
qed (simp_all add: main_with_eq)

text \<open>
  A run where the second text is lost and the fourth call fails after the first and
  the third succeeded: the status is 0, all four calls are made, and the stream has
  the first and the third line.
\<close>

theorem main_ignores_output_failure_witness:
  "fst (printf_with ''sizeof(uint32_t) = %zu\<newline>'' [4] ([Failed], fresh_world)) < 0
   \<and> main_with printf_with lp64 1 [''./db''] ([Taken, Lost, Taken, Failed], fresh_world) =
       (0, [], fresh_world\<lparr>stdout_calls :=
          [''sizeof(int) = 4\<newline>'', ''sizeof(int*) = 8\<newline>'',
           ''sizeof(uint8_t) = 1\<newline>'', ''sizeof(uint32_t) = 4\<newline>''],
          stdout_bytes := ''sizeof(int) = 4\<newline>sizeof(uint8_t) = 1\<newline>''\<rparr>)"
  using main_ignores_output_failure [where pf = printf_with and P = lp64 and argc = 1
      and argv = "[''./db'']" and s = "([Taken, Lost, Taken, Failed], fresh_world)"]
  by (simp add: printf_with_def Let_def vformat_source fresh_world_def lp64_def show_dec_small)

text \<open>
  C8. Writing to standard output is the only effect. A run leaves standard input, the
  environment variables, the files and the clock as they were, and does not open or
  close standard output; it reads none of them, since a run from a world that differs
  in them ends with the same status and does the same to standard output; and it reads
  no flag from the command line, since a run with no arguments at all does the same.
\<close>

theorem main_only_effect_stdout:
  "let w' = snd (main P argc argv w)
   in stdout_open w' = stdout_open w \<and> stdin_bytes w' = stdin_bytes w
      \<and> environ w' = environ w \<and> files w' = files w \<and> clock w' = clock w
      \<and> main P argc argv (w\<lparr>stdin_bytes := i, environ := e, files := f, clock := t\<rparr>)
          = (fst (main P argc argv w),
             w'\<lparr>stdin_bytes := i, environ := e, files := f, clock := t\<rparr>)
      \<and> main P argc argv w = main P 0 [] w"
  unfolding Let_def
proof (intro conjI)
  show "main P argc argv (w\<lparr>stdin_bytes := i, environ := e, files := f, clock := t\<rparr>)
      = (fst (main P argc argv w),
         (snd (main P argc argv w))\<lparr>stdin_bytes := i, environ := e, files := f, clock := t\<rparr>)"
    by (simp add: main_eq snd_printf)
  show "main P argc argv w = main P 0 [] w"
    by (simp add: main_eq)
qed (simp_all add: main_frame)

text \<open>
  C9. On every conforming platform on which the program compiles (one that provides
  \<^verbatim>\<open>uint8_t\<close> and \<^verbatim>\<open>uint32_t\<close>), whatever its word size, the size of \<^verbatim>\<open>uint8_t\<close> is
  1 and that of \<^verbatim>\<open>uint32_t\<close> is 4, since an exact-width type of 8 bits forces bytes of
  8 bits. So the third and fourth texts of a run are \<^verbatim>\<open>sizeof(uint8_t) = 1\<close> and
  \<^verbatim>\<open>sizeof(uint32_t) = 4\<close>, and these are the third and fourth line that an open
  standard output receives during the run.
\<close>

theorem main_exact_width_sizes:
  assumes "conforming P"
  shows "sizeof_uint8_t P = 1 \<and> sizeof_uint32_t P = 4
    \<and> drop (length (stdout_calls w) + 2) (stdout_calls (snd (main P argc argv w)))
        = [''sizeof(uint8_t) = 1\<newline>'', ''sizeof(uint32_t) = 4\<newline>'']
    \<and> (stdout_open w \<longrightarrow>
        drop 2 (split_lines
          (drop (length (stdout_bytes w)) (stdout_bytes (snd (main P argc argv w)))))
        = [''sizeof(uint8_t) = 1'', ''sizeof(uint32_t) = 4''])"
proof -
  from assms have cb: "8 \<le> char_bit P" and u8: "sizeof_uint8_t P * char_bit P = 8"
    and u32: "sizeof_uint32_t P * char_bit P = 32"
    by (simp_all add: conforming_def)
  have "sizeof_uint8_t P \<noteq> 0"
    using u8 by (cases "sizeof_uint8_t P") simp_all
  then have "char_bit P \<le> sizeof_uint8_t P * char_bit P"
    by simp
  with cb u8 have "char_bit P = 8"
    by simp
  with u8 u32 have sz: "sizeof_uint8_t P = 1" "sizeof_uint32_t P = 4"
    by simp_all
  have "stdout_open w \<Longrightarrow> drop 2 (split_lines
          (drop (length (stdout_bytes w)) (stdout_bytes (snd (main P argc argv w)))))
        = [''sizeof(uint8_t) = 1'', ''sizeof(uint32_t) = 4'']"
    by (simp add: main_lines sz show_dec_small)
  with sz show ?thesis
    by (simp add: main_calls show_dec_small)
qed

theorem main_exact_width_sizes_witness:
  "conforming \<lparr>char_bit = 8, sizeof_int = 2, sizeof_int_ptr = 2,
      sizeof_uint8_t = 1, sizeof_uint32_t = 4\<rparr>
   \<and> stdout_open fresh_world
   \<and> stdout_bytes (snd (main \<lparr>char_bit = 8, sizeof_int = 2, sizeof_int_ptr = 2,
        sizeof_uint8_t = 1, sizeof_uint32_t = 4\<rparr> 1 [''db''] fresh_world)) =
       ''sizeof(int) = 2\<newline>sizeof(int*) = 2\<newline>sizeof(uint8_t) = 1\<newline>sizeof(uint32_t) = 4\<newline>''
   \<and> drop 2 (split_lines (stdout_bytes (snd (main \<lparr>char_bit = 8, sizeof_int = 2,
        sizeof_int_ptr = 2, sizeof_uint8_t = 1, sizeof_uint32_t = 4\<rparr> 1 [''db''] fresh_world))))
       = [''sizeof(uint8_t) = 1'', ''sizeof(uint32_t) = 4'']"
proof -
  have h: "conforming \<lparr>char_bit = 8, sizeof_int = 2, sizeof_int_ptr = 2,
      sizeof_uint8_t = 1, sizeof_uint32_t = 4\<rparr>"
    by (simp add: conforming_def)
  show ?thesis
    using h main_exact_width_sizes [OF h, of fresh_world 1 "[''db'']"]
    by (simp add: main_bytes fresh_world_def show_dec_small)
qed

text \<open>
  C10. The program is deterministic. Two runs on the same platform with the same
  \<open>argc\<close> and \<open>argv\<close>, from worlds that agree on standard output and may differ in
  everything else (standard input, environment, files, clock), end with the same exit
  status and the same standard output, in the texts handed over and in the bytes
  received.
\<close>

theorem main_deterministic:
  assumes "stdout_open w1 = stdout_open w2" "stdout_calls w1 = stdout_calls w2"
    "stdout_bytes w1 = stdout_bytes w2"
  shows "fst (main P argc argv w1) = fst (main P argc argv w2)
    \<and> stdout_calls (snd (main P argc argv w1)) = stdout_calls (snd (main P argc argv w2))
    \<and> stdout_bytes (snd (main P argc argv w1)) = stdout_bytes (snd (main P argc argv w2))"
  using assms by (simp add: main_calls main_bytes) (simp add: main_eq)

theorem main_deterministic_witness:
  "stdout_open fresh_world = stdout_open (fresh_world\<lparr>stdin_bytes := ''x'',
       environ := [(''HOME'', ''/root'')], files := [(''db.c'', ''int'')], clock := 7\<rparr>)
   \<and> fresh_world \<noteq> fresh_world\<lparr>stdin_bytes := ''x'',
       environ := [(''HOME'', ''/root'')], files := [(''db.c'', ''int'')], clock := 7\<rparr>
   \<and> stdout_bytes (snd (main lp64 2 [''db'', ''-v''] fresh_world)) =
     stdout_bytes (snd (main lp64 2 [''db'', ''-v''] (fresh_world\<lparr>stdin_bytes := ''x'',
       environ := [(''HOME'', ''/root'')], files := [(''db.c'', ''int'')], clock := 7\<rparr>)))"
  using main_deterministic [where ?w1.0 = fresh_world
      and ?w2.0 = "fresh_world\<lparr>stdin_bytes := ''x'',
       environ := [(''HOME'', ''/root'')], files := [(''db.c'', ''int'')], clock := 7\<rparr>"
      and P = lp64 and argc = 2 and argv = "[''db'', ''-v'']"]
  by (simp add: fresh_world_def)

end
